theory Spec2Isabelle
  imports Main
begin

section \<open>Values exchanged with the collaborators of the cloner\<close>

text \<open>
  The cloner of \<^verbatim>\<open>src/mongo/db/cloner.cpp\<close> copies the collections, documents and
  indexes of one database from a remote node.  Its collaborators (operation context,
  replication coordinator, catalog, storage engine, remote connection) are not part of
  the file; they appear here as an environment of oracles and as an explicit world
  state.
\<close>

type_synonym uuid = nat
type_synonym namespace = string
type_synonym host = string

text \<open>\<^verbatim>\<open>NamespaceString(db, coll).ns()\<close>: database name, a dot, collection name.\<close>

definition nsOf :: "string \<Rightarrow> string \<Rightarrow> namespace" where
  "nsOf dbName collName = dbName @ ''.'' @ collName"

datatype error_code =
    NotMaster
  | PrimarySteppedDown
  | Interrupted
  | DuplicateKey
  | NamespaceExists
  | InvalidOptions
  | IllegalOperation
  | HostUnreachable
  | CommandFailed
  | NoSuchKey
  | TypeMismatch
  | UnknownError
  | Location nat
  | OtherError nat

text \<open>A \<^verbatim>\<open>Status\<close> value, as returned by a call.\<close>

datatype status = OK | Err error_code

text \<open>
  What a call can throw: the storage engine's write-conflict signal, an assertion
  carrying an error code (\<^verbatim>\<open>uassert\<close>, \<^verbatim>\<open>uassertStatusOK\<close>, \<^verbatim>\<open>msgasserted\<close>,
  \<^verbatim>\<open>checkForInterrupt\<close>), or a failed \<^verbatim>\<open>invariant\<close>, which ends the process.
\<close>

datatype exn = WriteConflictException | DBException error_code | InvariantFailure

text \<open>A field of a BSON object read with a type in mind.\<close>

datatype 'a field = Missing | WrongType | Value 'a

datatype document = Doc nat

record index_spec =
  spec_name :: "string field"
  spec_key :: nat

record options_doc =
  od_fields :: nat
  od_uuid :: "uuid option"

record collection_options =
  co_uuid :: "uuid option"
  co_settings :: nat

datatype parse_kind = ParseForCommand | ParseForStorage

text \<open>One element of the remote \<^verbatim>\<open>listCollections\<close> answer.\<close>

record collection_info =
  ci_name :: "string field"
  ci_options :: "options_doc field"
  ci_info_uuid :: "error_code + uuid"
  ci_idIndex :: "index_spec option field"

text \<open>\<^verbatim>\<open>CreateCollectionParams\<close>; an empty \<^verbatim>\<open>BSONObj\<close> is \<open>None\<close>.\<close>

record CreateCollectionParams =
  collectionName :: string
  collectionInfo :: collection_info
  idIndexSpec :: "index_spec option"
  shardedColl :: bool

section \<open>The local node\<close>

record collection =
  coll_uuid :: uuid
  coll_options :: collection_options
  coll_docs :: "document list"
  coll_indexes :: "index_spec list"
  coll_building :: "index_spec list"

record world =
  databases :: "string set"
  catalog :: "namespace \<rightharpoonup> collection"

datatype event =
    LockReleased
  | Yielded
  | LockAcquired
  | ConnectAttempted string
  | CollectionCreated namespace collection_options bool "index_spec option"
  | DocumentInserted namespace document
  | InsertErrorLogged namespace status document
  | CorruptDocumentSkipped namespace document
  | WriteConflictRetried
  | ClonedCollsCleared
  | ClonedCollsInserted namespace
  | IndexBuildEntryAdded uuid uuid
  | StartIndexBuildLogged namespace uuid uuid "index_spec list"
  | IndexBuildInitialized namespace "index_spec list"
  | CreateIndexLogged namespace uuid index_spec
  | CommitIndexBuildLogged namespace uuid uuid "index_spec list"
  | IndexBuildCommitted namespace
  | IndexBuildAborted namespace

text \<open>
  The state threaded through the cloner: a clock that counts the questions put to the
  environment, the catalog of the local node, the trace of what the cloner did, and
  the output parameter \<^verbatim>\<open>clonedColls\<close> of \<^verbatim>\<open>copyDb\<close>.
\<close>

record state =
  now :: nat
  world :: world
  trace :: "event list"
  clonedColls :: "string set"

datatype storage_outcome = Succeeds | Fails error_code | Conflicts

text \<open>
  The environment.  Answers that can change while the cloner runs are functions of the
  clock: a pending kill of the operation, the replication role, the outcome of a storage
  operation, the fail point, and what other operations do to the catalog while the
  exclusive lock is not held.  The settings read through \<^verbatim>\<open>gSkipCorruptDocumentsWhenCloning\<close>
  and \<^verbatim>\<open>supportsTwoPhaseIndexBuild\<close> are fixed for a run.
\<close>

record env =
  killPending :: "nat \<Rightarrow> bool"
  writesAreReplicated :: bool
  canAcceptWritesFor :: "nat \<Rightarrow> namespace \<Rightarrow> bool"
  canAcceptWritesForDatabase :: "nat \<Rightarrow> string \<Rightarrow> bool"
  storage :: "nat \<Rightarrow> storage_outcome"
  others :: "nat \<Rightarrow> world \<Rightarrow> world"
  genUUID :: "nat \<Rightarrow> uuid"
  movePrimaryFailPoint :: "nat \<Rightarrow> bool"
  validateBSON :: "document \<Rightarrow> bool"
  gSkipCorruptDocumentsWhenCloning :: bool
  supportsTwoPhaseIndexBuild :: bool
  userAllowedCreateNS :: "string \<Rightarrow> string \<Rightarrow> status"
  parseCollectionOptions :: "parse_kind \<Rightarrow> options_doc \<Rightarrow> error_code + collection_options"
  isSystem :: "namespace \<Rightarrow> bool"
  isLegalClientSystemNS :: "namespace \<Rightarrow> bool"
  parseConnectionString :: "string \<Rightarrow> error_code + host list"
  isSelf :: "host \<Rightarrow> bool"
  connectSucceeds :: bool
  isInternalAuthSet :: bool
  authenticateInternalUser :: status
  getCollectionInfos :: "string \<Rightarrow> exn + collection_info list"
  getIndexSpecs :: "namespace \<Rightarrow> exn + index_spec list"
  queryBatches :: "namespace \<Rightarrow> document list list \<times> exn option"

section \<open>Programs: state, exceptions, divergence\<close>

text \<open>
  A program maps a state to \<open>None\<close> when it does not return, and otherwise to the
  final state with either the exception thrown (\<open>Inl\<close>) or the value returned.
\<close>

type_synonym 'a prog = "state \<Rightarrow> ((exn + 'a) \<times> state) option"

definition succeed :: "'a \<Rightarrow> 'a prog" where
  "succeed x = (\<lambda>s. Some (Inr x, s))"

definition throw :: "exn \<Rightarrow> 'a prog" where
  "throw e = (\<lambda>s. Some (Inl e, s))"

definition andThen :: "'a prog \<Rightarrow> ('a \<Rightarrow> 'b prog) \<Rightarrow> 'b prog" where
  "andThen m f = (\<lambda>s. case m s of
       None \<Rightarrow> None
     | Some (Inl e, s') \<Rightarrow> Some (Inl e, s')
     | Some (Inr x, s') \<Rightarrow> f x s')"

text \<open>
  A scoped resource: \<open>cleanup\<close> runs when \<open>body\<close> is left, by return or by exception.
  A failed invariant ends the process, and nothing runs after it.
\<close>

definition scoped :: "'a prog \<Rightarrow> unit prog \<Rightarrow> 'a prog" where
  "scoped body cleanup = (\<lambda>s. case body s of
       None \<Rightarrow> None
     | Some (Inl InvariantFailure, s') \<Rightarrow> Some (Inl InvariantFailure, s')
     | Some (r, s') \<Rightarrow> (case cleanup s' of
           None \<Rightarrow> None
         | Some (Inl e, s'') \<Rightarrow> Some (Inl e, s'')
         | Some (Inr _, s'') \<Rightarrow> Some (r, s'')))"

text \<open>
  \<^verbatim>\<open>makeGuard(f)\<close> followed by \<^verbatim>\<open>dismiss()\<close> as the last statement of the guarded
  code: \<open>f\<close> runs when the code is left by an exception, and not when it reaches
  the \<^verbatim>\<open>dismiss()\<close>.
\<close>

definition guarded :: "'a prog \<Rightarrow> unit prog \<Rightarrow> 'a prog" where
  "guarded body onExit = (\<lambda>s. case body s of
       None \<Rightarrow> None
     | Some (Inr x, s') \<Rightarrow> Some (Inr x, s')
     | Some (Inl InvariantFailure, s') \<Rightarrow> Some (Inl InvariantFailure, s')
     | Some (Inl e, s') \<Rightarrow> (case onExit s' of
           None \<Rightarrow> None
         | Some (_, s'') \<Rightarrow> Some (Inl e, s'')))"

definition tick :: "state \<Rightarrow> state" where
  "tick s = s\<lparr>now := Suc (now s)\<rparr>"

definition emit :: "event \<Rightarrow> unit prog" where
  "emit e = (\<lambda>s. Some (Inr (), s\<lparr>trace := trace s @ [e]\<rparr>))"

definition uassert :: "error_code \<Rightarrow> bool \<Rightarrow> unit prog" where
  "uassert code cond = (if cond then succeed () else throw (DBException code))"

definition uassertStatusOK :: "status \<Rightarrow> unit prog" where
  "uassertStatusOK st = (case st of OK \<Rightarrow> succeed () | Err c \<Rightarrow> throw (DBException c))"

definition invariant :: "bool \<Rightarrow> unit prog" where
  "invariant cond = (if cond then succeed () else throw InvariantFailure)"

text \<open>\<^verbatim>\<open>opCtx->checkForInterrupt()\<close>.\<close>

definition checkForInterrupt :: "env \<Rightarrow> unit prog" where
  "checkForInterrupt E = (\<lambda>s.
     if killPending E (now s) then Some (Inl (DBException Interrupted), tick s)
     else Some (Inr (), tick s))"

text \<open>\<^verbatim>\<open>ReplicationCoordinator::canAcceptWritesFor\<close> and
  \<^verbatim>\<open>canAcceptWritesForDatabase\<close>.\<close>

definition askCanAcceptWritesFor :: "env \<Rightarrow> namespace \<Rightarrow> bool prog" where
  "askCanAcceptWritesFor E nss = (\<lambda>s. Some (Inr (canAcceptWritesFor E (now s) nss), tick s))"

definition askCanAcceptWritesForDatabase :: "env \<Rightarrow> string \<Rightarrow> bool prog" where
  "askCanAcceptWritesForDatabase E dbName =
     (\<lambda>s. Some (Inr (canAcceptWritesForDatabase E (now s) dbName), tick s))"

text \<open>
  \<^verbatim>\<open>!opCtx->writesAreReplicated() || canAcceptWritesFor(opCtx, nss)\<close>: the
  coordinator is asked only when writes are replicated.
\<close>

definition mayWrite :: "env \<Rightarrow> namespace \<Rightarrow> bool prog" where
  "mayWrite E nss =
     (if \<not> writesAreReplicated E then succeed True else askCanAcceptWritesFor E nss)"

definition mayWriteDatabase :: "env \<Rightarrow> string \<Rightarrow> bool prog" where
  "mayWriteDatabase E dbName =
     (if \<not> writesAreReplicated E then succeed True else askCanAcceptWritesForDatabase E dbName)"

text \<open>
  Taking the exclusive database lock: whatever other operations did while it was not
  held is visible from here on.
\<close>

definition acquireLock :: "env \<Rightarrow> unit prog" where
  "acquireLock E = (\<lambda>s. Some (Inr (),
     s\<lparr>now := Suc (now s), world := others E (now s) (world s),
       trace := trace s @ [LockAcquired]\<rparr>))"

definition releaseLock :: "unit prog" where
  "releaseLock = emit LockReleased"

text \<open>\<^verbatim>\<open>Lock::TempRelease\<close> around a block.\<close>

definition tempRelease :: "env \<Rightarrow> 'a prog \<Rightarrow> 'a prog" where
  "tempRelease E body = andThen releaseLock (\<lambda>_. scoped body (acquireLock E))"

text \<open>A storage operation that returns a \<^verbatim>\<open>Status\<close> or throws the write conflict.\<close>

definition storageOp :: "env \<Rightarrow> status prog" where
  "storageOp E = (\<lambda>s. case storage E (now s) of
       Succeeds \<Rightarrow> Some (Inr OK, tick s)
     | Fails c \<Rightarrow> Some (Inr (Err c), tick s)
     | Conflicts \<Rightarrow> Some (Inl WriteConflictException, tick s))"

definition freshUUID :: "env \<Rightarrow> uuid prog" where
  "freshUUID E = (\<lambda>s. Some (Inr (genUUID E (now s)), tick s))"

definition lookupCollectionByNamespace :: "namespace \<Rightarrow> collection option prog" where
  "lookupCollectionByNamespace nss = (\<lambda>s. Some (Inr (catalog (world s) nss), s))"

text \<open>\<^verbatim>\<open>DatabaseHolder::openDb\<close> creates the database when it is missing;
  \<^verbatim>\<open>getDb\<close> does not.\<close>

definition openDb :: "string \<Rightarrow> unit prog" where
  "openDb dbName = (\<lambda>s. Some (Inr (),
     s\<lparr>world := (world s)\<lparr>databases := insert dbName (databases (world s))\<rparr>\<rparr>))"

definition getDb :: "string \<Rightarrow> bool prog" where
  "getDb dbName = (\<lambda>s. Some (Inr (dbName \<in> databases (world s)), s))"

definition modifyCollection :: "namespace \<Rightarrow> (collection \<Rightarrow> collection) \<Rightarrow> world \<Rightarrow> world" where
  "modifyCollection nss f w = (case catalog w nss of
       None \<Rightarrow> w
     | Some c \<Rightarrow> w\<lparr>catalog := (catalog w)(nss \<mapsto> f c)\<rparr>)"

definition updateCollection :: "namespace \<Rightarrow> (collection \<Rightarrow> collection) \<Rightarrow> unit prog" where
  "updateCollection nss f = (\<lambda>s. Some (Inr (), s\<lparr>world := modifyCollection nss f (world s)\<rparr>))"

section \<open>Write-conflict retry\<close>

text \<open>
  Modelled from the spec: \<^verbatim>\<open>writeConflictRetry\<close> is declared outside the file.  A
  transaction that aborts with the write-conflict signal is run again, with no bound on
  the number of attempts; every other outcome is passed on.  The loop need not end, so
  the function is partial.
\<close>

partial_function (option) writeConflictRetry ::
  "'a prog \<Rightarrow> state \<Rightarrow> ((exn + 'a) \<times> state) option" where
  "writeConflictRetry f s = (case f s of
       None \<Rightarrow> None
     | Some (r, s') \<Rightarrow>
         if r = Inl WriteConflictException
         then writeConflictRetry f (s'\<lparr>trace := trace s' @ [WriteConflictRetried]\<rparr>)
         else Some (r, s'))"

declare writeConflictRetry.simps [code]

section \<open>Creating a collection\<close>

definition default_id_index :: index_spec where
  "default_id_index = \<lparr>spec_name = Value ''_id_'', spec_key = 0\<rparr>"

text \<open>
  Modelled from the spec: \<^verbatim>\<open>Database::userCreateNS\<close> is declared outside the file.
  Collection creation given options, identity-index spec and default-index flag; a
  namespace that exists is not created again.  The new collection has the identity of
  the options when they carry one, and a fresh one otherwise; with default indexes it
  gets the identity index supplied, or the synthesized default when none is supplied.
\<close>

definition newCollection ::
  "uuid \<Rightarrow> collection_options \<Rightarrow> bool \<Rightarrow> index_spec option \<Rightarrow> collection" where
  "newCollection u copts createDefaultIndexes idIndex =
     \<lparr>coll_uuid = u, coll_options = copts\<lparr>co_uuid := Some u\<rparr>, coll_docs = [],
      coll_indexes = (if createDefaultIndexes
         then [case idIndex of Some i \<Rightarrow> i | None \<Rightarrow> default_id_index] else []),
      coll_building = []\<rparr>"

definition addCollection :: "namespace \<Rightarrow> collection \<Rightarrow> world \<Rightarrow> world" where
  "addCollection nss c w = w\<lparr>catalog := (catalog w)(nss \<mapsto> c)\<rparr>"

definition userCreateNS ::
  "env \<Rightarrow> namespace \<Rightarrow> collection_options \<Rightarrow> bool \<Rightarrow> index_spec option \<Rightarrow> status prog" where
  "userCreateNS E nss copts createDefaultIndexes idIndex =
     andThen (lookupCollectionByNamespace nss) (\<lambda>existing.
       if existing \<noteq> None then succeed (Err NamespaceExists)
       else andThen (storageOp E) (\<lambda>st.
         if st \<noteq> OK then succeed st
         else andThen (case co_uuid copts of Some u \<Rightarrow> succeed u | None \<Rightarrow> freshUUID E) (\<lambda>u.
              andThen (\<lambda>s. Some (Inr (), s\<lparr>world := addCollection nss
                  (newCollection u copts createDefaultIndexes idIndex) (world s)\<rparr>)) (\<lambda>_.
              andThen (emit (CollectionCreated nss copts createDefaultIndexes idIndex)) (\<lambda>_.
              succeed OK)))))"

text \<open>
  The transaction of \<^verbatim>\<open>Fun::operator()\<close> (lines 114 to 129) and of
  \<^verbatim>\<open>_copyIndexes\<close> (lines 300 to 317) that creates a missing target collection.
  The identity-index argument is computed where the source computes it, after the
  options are parsed.
\<close>

definition createMissingCollection ::
  "env \<Rightarrow> namespace \<Rightarrow> options_doc \<Rightarrow> (exn + index_spec option) \<Rightarrow> collection prog" where
  "createMissingCollection E nss from_options idIndexArg =
     writeConflictRetry (
       andThen (checkForInterrupt E) (\<lambda>_.
       (case parseCollectionOptions E ParseForCommand from_options of
          Inl c \<Rightarrow> throw (DBException c)
        | Inr collectionOptions \<Rightarrow>
           (case idIndexArg of
              Inl e \<Rightarrow> throw e
            | Inr idIndex \<Rightarrow>
               andThen (userCreateNS E nss collectionOptions True idIndex) (\<lambda>st.
               andThen (invariant (st = OK)) (\<lambda>_.
               andThen (lookupCollectionByNamespace nss) (\<lambda>coll.
                 case coll of None \<Rightarrow> throw InvariantFailure | Some c \<Rightarrow> succeed c)))))))"

definition ensureCollection ::
  "env \<Rightarrow> namespace \<Rightarrow> options_doc \<Rightarrow> (exn + index_spec option) \<Rightarrow> collection prog" where
  "ensureCollection E nss from_options idIndexArg =
     andThen (lookupCollectionByNamespace nss) (\<lambda>coll.
       case coll of
         None \<Rightarrow> createMissingCollection E nss from_options idIndexArg
       | Some c \<Rightarrow> succeed c)"

section \<open>The document copier: \<^verbatim>\<open>Cloner::Fun::operator()\<close>\<close>

text \<open>Lines 133 to 166, the block run when \<^verbatim>\<open>numSeen % 128 == 127\<close>.  The progress
  report, which depends on the wall clock only, is left out.\<close>

definition yieldAndRecheck :: "env \<Rightarrow> string \<Rightarrow> namespace \<Rightarrow> unit prog" where
  "yieldAndRecheck E dbName nss =
     andThen (checkForInterrupt E) (\<lambda>_.
     andThen releaseLock (\<lambda>_.
     andThen (emit Yielded) (\<lambda>_.
     andThen (acquireLock E) (\<lambda>_.
     andThen (if writesAreReplicated E
              then andThen (askCanAcceptWritesFor E nss) (\<lambda>ok. uassert PrimarySteppedDown ok)
              else succeed ()) (\<lambda>_.
     andThen (getDb dbName) (\<lambda>db.
     andThen (uassert (Location 28593) db) (\<lambda>_.
     andThen (lookupCollectionByNamespace nss) (\<lambda>coll.
     uassert (Location 28594) (coll \<noteq> None)))))))))"

definition yieldIfDue :: "env \<Rightarrow> string \<Rightarrow> namespace \<Rightarrow> nat \<Rightarrow> unit prog" where
  "yieldIfDue E dbName nss numSeen =
     (if numSeen mod 128 = 127 then yieldAndRecheck E dbName nss else succeed ())"

text \<open>Lines 187 to 207, the transaction handed to \<^verbatim>\<open>writeConflictRetry\<close>.\<close>

definition insertTxn :: "env \<Rightarrow> namespace \<Rightarrow> document \<Rightarrow> unit prog" where
  "insertTxn E nss doc =
     andThen (checkForInterrupt E) (\<lambda>_.
     andThen (storageOp E) (\<lambda>st.
     andThen (if st \<noteq> OK \<and> st \<noteq> Err DuplicateKey
              then andThen (emit (InsertErrorLogged nss st doc)) (\<lambda>_. uassertStatusOK st)
              else succeed ()) (\<lambda>_.
     if st = OK
     then andThen (updateCollection nss (\<lambda>c. c\<lparr>coll_docs := coll_docs c @ [doc]\<rparr>)) (\<lambda>_.
          emit (DocumentInserted nss doc))
     else succeed ())))"

text \<open>Lines 132 to 217: the loop over the documents of the current batch, with
  \<^verbatim>\<open>numSeen\<close> passed in and out.\<close>

fun batchLoop :: "env \<Rightarrow> string \<Rightarrow> namespace \<Rightarrow> document list \<Rightarrow> nat \<Rightarrow> nat prog" where
  "batchLoop E dbName nss [] numSeen = succeed numSeen"
| "batchLoop E dbName nss (tmp # rest) numSeen =
     andThen (yieldIfDue E dbName nss numSeen) (\<lambda>_.
       if \<not> validateBSON E tmp then
         (if gSkipCorruptDocumentsWhenCloning E
          then andThen (emit (CorruptDocumentSkipped nss tmp)) (\<lambda>_.
               batchLoop E dbName nss rest numSeen)
          else throw (DBException (Location 28531)))
       else
         andThen (lookupCollectionByNamespace nss) (\<lambda>coll.
         andThen (uassert UnknownError (coll \<noteq> None)) (\<lambda>_.
         andThen (writeConflictRetry (insertTxn E nss tmp)) (\<lambda>_.
         batchLoop E dbName nss rest (Suc numSeen)))))"

text \<open>Lines 101 to 218.\<close>

definition Fun_operator ::
  "env \<Rightarrow> string \<Rightarrow> namespace \<Rightarrow> options_doc \<Rightarrow> index_spec option \<Rightarrow>
   document list \<Rightarrow> nat \<Rightarrow> nat prog" where
  "Fun_operator E dbName nss from_options from_id_index batch numSeen =
     andThen (acquireLock E) (\<lambda>_.
     scoped (
       andThen (mayWrite E nss) (\<lambda>ok.
       andThen (uassert NotMaster ok) (\<lambda>_.
       andThen (openDb dbName) (\<lambda>_.
       andThen (ensureCollection E nss from_options (Inr from_id_index)) (\<lambda>_.
       batchLoop E dbName nss batch numSeen)))))
       releaseLock)"

section \<open>Copying one collection: \<^verbatim>\<open>Cloner::_copy\<close>\<close>

text \<open>
  Modelled from the spec: \<^verbatim>\<open>DBClientBase::query\<close> with a batch callback is declared
  outside the file.  The remote cursor is a finite sequence of batches, possibly ended
  by an error of the connection; the callback runs once for each batch, in order.
\<close>

fun queryLoop :: "(document list \<Rightarrow> nat \<Rightarrow> nat prog) \<Rightarrow> document list list \<Rightarrow> nat \<Rightarrow> nat prog" where
  "queryLoop f [] numSeen = succeed numSeen"
| "queryLoop f (batch # batches) numSeen =
     andThen (f batch numSeen) (\<lambda>numSeen'. queryLoop f batches numSeen')"

definition DBClient_query ::
  "env \<Rightarrow> (document list \<Rightarrow> nat \<Rightarrow> nat prog) \<Rightarrow> nat \<Rightarrow> namespace \<Rightarrow> unit prog" where
  "DBClient_query E f numSeen nss =
     andThen (queryLoop f (fst (queryBatches E nss)) numSeen) (\<lambda>_.
       case snd (queryBatches E nss) of None \<Rightarrow> succeed () | Some e \<Rightarrow> throw e)"

text \<open>Lines 233 to 271; \<^verbatim>\<open>f.numSeen = 0\<close>.\<close>

definition Cloner_copy ::
  "env \<Rightarrow> string \<Rightarrow> namespace \<Rightarrow> options_doc \<Rightarrow> index_spec option \<Rightarrow> unit prog" where
  "Cloner_copy E toDBName nss from_opts from_id_index =
     andThen (tempRelease E
        (DBClient_query E (Fun_operator E toDBName nss from_opts from_id_index) 0 nss)) (\<lambda>_.
     andThen (mayWrite E nss) (\<lambda>ok.
     uassert PrimarySteppedDown ok))"

section \<open>Building the indexes: \<^verbatim>\<open>Cloner::_copyIndexes\<close>\<close>

text \<open>Lines 83 to 93.\<close>

fun Cloner_getIdIndexSpec :: "index_spec list \<Rightarrow> exn + index_spec option" where
  "Cloner_getIdIndexSpec [] = Inr None"
| "Cloner_getIdIndexSpec (indexSpec # indexSpecs) =
     (case spec_name indexSpec of
        Missing \<Rightarrow> Inl (DBException NoSuchKey)
      | WrongType \<Rightarrow> Inl (DBException TypeMismatch)
      | Value indexName \<Rightarrow>
          if indexName = ''_id_'' then Inr (Some indexSpec)
          else Cloner_getIdIndexSpec indexSpecs)"

text \<open>
  Modelled from the spec: \<^verbatim>\<open>IndexCatalog::removeExistingIndexesNoChecks\<close> and the
  life cycle of \<^verbatim>\<open>MultiIndexBlock\<close> (init, insert all, check constraints, commit,
  abort) are declared outside the file.  An index specification is missing locally when
  no index of the collection matches it exactly.  Initialization registers the index
  metadata after its callback has succeeded; commit calls back once for each index and
  then once for the build, and makes the indexes visible; abort removes the metadata
  of an unfinished build and does nothing after a commit.
\<close>

definition removeExistingIndexesNoChecks :: "collection \<Rightarrow> index_spec list \<Rightarrow> index_spec list" where
  "removeExistingIndexesNoChecks coll specs = filter (\<lambda>spec. spec \<notin> set (coll_indexes coll)) specs"

fun forEach :: "('a \<Rightarrow> unit prog) \<Rightarrow> 'a list \<Rightarrow> unit prog" where
  "forEach f [] = succeed ()"
| "forEach f (x # xs) = andThen (f x) (\<lambda>_. forEach f xs)"

definition MultiIndexBlock_init ::
  "env \<Rightarrow> namespace \<Rightarrow> index_spec list \<Rightarrow> (index_spec list \<Rightarrow> status prog) \<Rightarrow> status prog" where
  "MultiIndexBlock_init E nss specs onInit =
     andThen (storageOp E) (\<lambda>st.
       if st \<noteq> OK then succeed st
       else andThen (onInit specs) (\<lambda>st'.
         if st' \<noteq> OK then succeed st'
         else andThen (updateCollection nss (\<lambda>c. c\<lparr>coll_building := specs\<rparr>)) (\<lambda>_.
              andThen (emit (IndexBuildInitialized nss specs)) (\<lambda>_.
              succeed OK))))"

definition MultiIndexBlock_commit ::
  "env \<Rightarrow> namespace \<Rightarrow> index_spec list \<Rightarrow> (index_spec \<Rightarrow> unit prog) \<Rightarrow> unit prog \<Rightarrow> status prog" where
  "MultiIndexBlock_commit E nss specs onCreateEach onCommit =
     andThen (storageOp E) (\<lambda>st.
       if st \<noteq> OK then succeed st
       else andThen (forEach onCreateEach specs) (\<lambda>_.
            andThen onCommit (\<lambda>_.
            andThen (updateCollection nss
                (\<lambda>c. c\<lparr>coll_indexes := coll_indexes c @ specs, coll_building := []\<rparr>)) (\<lambda>_.
            andThen (emit (IndexBuildCommitted nss)) (\<lambda>_.
            succeed OK)))))"

definition abortIndexBuild :: "namespace \<Rightarrow> unit prog" where
  "abortIndexBuild nss =
     andThen (updateCollection nss (\<lambda>c. c\<lparr>coll_building := []\<rparr>)) (\<lambda>_.
     emit (IndexBuildAborted nss))"

text \<open>Lines 341 to 365: the callback given to \<^verbatim>\<open>init\<close>.\<close>

definition onInitFn ::
  "env \<Rightarrow> namespace \<Rightarrow> collection \<Rightarrow> uuid option \<Rightarrow> index_spec list \<Rightarrow> status prog" where
  "onInitFn E nss coll buildUUID specs =
     (case buildUUID of
        Some b \<Rightarrow>
          if writesAreReplicated E
          then andThen (storageOp E) (\<lambda>st.
               andThen (uassertStatusOK st) (\<lambda>_.
               andThen (emit (IndexBuildEntryAdded b (coll_uuid coll))) (\<lambda>_.
               andThen (emit (StartIndexBuildLogged nss (coll_uuid coll) b specs)) (\<lambda>_.
               succeed OK))))
          else succeed OK
      | None \<Rightarrow> succeed OK)"

text \<open>Lines 380 to 398: the two callbacks given to \<^verbatim>\<open>commit\<close>.\<close>

definition onCreateEachFn :: "env \<Rightarrow> namespace \<Rightarrow> collection \<Rightarrow> index_spec \<Rightarrow> unit prog" where
  "onCreateEachFn E nss coll spec =
     (if writesAreReplicated E \<and> \<not> supportsTwoPhaseIndexBuild E
      then emit (CreateIndexLogged nss (coll_uuid coll) spec)
      else succeed ())"

definition onCommitFn ::
  "env \<Rightarrow> namespace \<Rightarrow> collection \<Rightarrow> uuid option \<Rightarrow> index_spec list \<Rightarrow> unit prog" where
  "onCommitFn E nss coll buildUUID indexInfoObjs =
     (case buildUUID of
        Some b \<Rightarrow>
          if writesAreReplicated E
          then emit (CommitIndexBuildLogged nss (coll_uuid coll) b indexInfoObjs)
          else succeed ()
      | None \<Rightarrow> succeed ())"

text \<open>Lines 367 to 400: the build once the indexes to build and the build identifier are
  known, with the guard armed after \<^verbatim>\<open>init\<close>.\<close>

definition buildIndexes ::
  "env \<Rightarrow> namespace \<Rightarrow> collection \<Rightarrow> index_spec list \<Rightarrow> uuid option \<Rightarrow> unit prog" where
  "buildIndexes E nss coll indexesToBuild buildUUID =
     andThen (MultiIndexBlock_init E nss indexesToBuild (onInitFn E nss coll buildUUID)) (\<lambda>st.
     andThen (uassertStatusOK st) (\<lambda>_.
     guarded (
       andThen (storageOp E) (\<lambda>st.
       andThen (uassertStatusOK st) (\<lambda>_.
       andThen (storageOp E) (\<lambda>st.
       andThen (uassertStatusOK st) (\<lambda>_.
       andThen (MultiIndexBlock_commit E nss indexesToBuild
                  (onCreateEachFn E nss coll)
                  (onCommitFn E nss coll buildUUID indexesToBuild)) (\<lambda>st.
       uassertStatusOK st)))))
     ) (abortIndexBuild nss)))"

text \<open>Lines 320 to 366: what is left to build, and the build identifier.\<close>

definition buildMissingIndexes ::
  "env \<Rightarrow> namespace \<Rightarrow> collection \<Rightarrow> index_spec list \<Rightarrow> unit prog" where
  "buildMissingIndexes E nss coll from_indexes =
     (if removeExistingIndexesNoChecks coll from_indexes = [] then succeed ()
      else
        andThen (if supportsTwoPhaseIndexBuild E
                 then andThen (freshUUID E) (\<lambda>u. succeed (Some u))
                 else succeed None) (\<lambda>buildUUID.
        buildIndexes E nss coll (removeExistingIndexesNoChecks coll from_indexes) buildUUID))"

text \<open>Lines 273 to 401.\<close>

definition Cloner_copyIndexes ::
  "env \<Rightarrow> string \<Rightarrow> namespace \<Rightarrow> options_doc \<Rightarrow> index_spec list \<Rightarrow> unit prog" where
  "Cloner_copyIndexes E toDBName nss from_opts from_indexes =
     andThen (mayWrite E nss) (\<lambda>ok.
     andThen (uassert PrimarySteppedDown ok) (\<lambda>_.
     if from_indexes = [] then succeed ()
     else
       andThen (openDb toDBName) (\<lambda>_.
       andThen (ensureCollection E nss from_opts (Cloner_getIdIndexSpec from_indexes)) (\<lambda>coll.
       buildMissingIndexes E nss coll from_indexes))))"

section \<open>Planning and creating: \<^verbatim>\<open>_filterCollectionsForClone\<close>,
  \<^verbatim>\<open>_createCollectionsForDb\<close>\<close>

text \<open>Lines 403 to 436.\<close>

fun Cloner_filterCollectionsForClone ::
  "env \<Rightarrow> string \<Rightarrow> collection_info list \<Rightarrow> error_code + collection_info list" where
  "Cloner_filterCollectionsForClone E fromDBName [] = Inr []"
| "Cloner_filterCollectionsForClone E fromDBName (coll # initialCollections) =
     (case (case ci_options coll of
              Value od \<Rightarrow> (case parseCollectionOptions E ParseForCommand od of
                             Inl c \<Rightarrow> Err c | Inr _ \<Rightarrow> OK)
            | _ \<Rightarrow> OK) of
        Err c \<Rightarrow> Inl c
      | OK \<Rightarrow>
         (case ci_name coll of
            Missing \<Rightarrow> Inl NoSuchKey
          | WrongType \<Rightarrow> Inl TypeMismatch
          | Value name \<Rightarrow>
              if isSystem E (nsOf fromDBName name)
                 \<and> \<not> isLegalClientSystemNS E (nsOf fromDBName name)
              then Cloner_filterCollectionsForClone E fromDBName initialCollections
              else (case Cloner_filterCollectionsForClone E fromDBName initialCollections of
                      Inl c \<Rightarrow> Inl c
                    | Inr finalCollections \<Rightarrow> Inr (coll # finalCollections))))"

text \<open>Lines 459 to 516, the transaction handed to \<^verbatim>\<open>writeConflictRetry\<close>;
  \<open>od\<close> is the options document of line 454.\<close>

definition createCollectionTxn ::
  "env \<Rightarrow> namespace \<Rightarrow> CreateCollectionParams \<Rightarrow> options_doc \<Rightarrow> status prog" where
  "createCollectionTxn E nss params od =
     andThen (checkForInterrupt E) (\<lambda>_.
     andThen (lookupCollectionByNamespace nss) (\<lambda>coll.
       case coll of
         Some c \<Rightarrow>
           if \<not> shardedColl params then succeed (Err NamespaceExists)
           else (case ci_info_uuid (collectionInfo params) of
                   Inl e \<Rightarrow> throw (DBException e)
                 | Inr clonedUUID \<Rightarrow>
                     if Some clonedUUID = co_uuid (coll_options c) then succeed OK
                     else succeed (Err InvalidOptions))
       | None \<Rightarrow>
           (case (if shardedColl params
                  then (case ci_info_uuid (collectionInfo params) of
                          Inl e \<Rightarrow> Inl e
                        | Inr u \<Rightarrow> Inr (od\<lparr>od_uuid := Some u\<rparr>))
                  else Inr od) of
              Inl e \<Rightarrow> throw (DBException e)
            | Inr options \<Rightarrow>
               (case parseCollectionOptions E ParseForStorage options of
                  Inl e \<Rightarrow> throw (DBException e)
                | Inr collectionOptions \<Rightarrow>
                    userCreateNS E nss collectionOptions True (idIndexSpec params)))))"

text \<open>Lines 447 to 522: the loop, with \<^verbatim>\<open>collCount\<close> as an argument.\<close>

definition shouldFail :: "env \<Rightarrow> bool prog" where
  "shouldFail E = (\<lambda>s. Some (Inr (movePrimaryFailPoint E (now s)), tick s))"

fun createLoop :: "env \<Rightarrow> string \<Rightarrow> nat \<Rightarrow> CreateCollectionParams list \<Rightarrow> status prog" where
  "createLoop E dbName collCount [] = succeed OK"
| "createLoop E dbName collCount (params # rest) =
     andThen (shouldFail E) (\<lambda>fp.
       if fp \<and> collCount > 0 then succeed (Err CommandFailed)
       else (case ci_options (collectionInfo params) of
               Value od \<Rightarrow>
                 andThen (uassertStatusOK (userAllowedCreateNS E dbName (collectionName params))) (\<lambda>_.
                 andThen (writeConflictRetry
                            (createCollectionTxn E (nsOf dbName (collectionName params)) params od)) (\<lambda>st.
                   if st \<noteq> OK then succeed st
                   else createLoop E dbName (Suc collCount) rest))
             | _ \<Rightarrow> throw (DBException (Location 10065))))"

text \<open>Lines 438 to 525.\<close>

definition Cloner_createCollectionsForDb ::
  "env \<Rightarrow> CreateCollectionParams list \<Rightarrow> string \<Rightarrow> status prog" where
  "Cloner_createCollectionsForDb E createCollectionParams dbName =
     andThen (openDb dbName) (\<lambda>_. createLoop E dbName 0 createCollectionParams)"

section \<open>The public operation: \<^verbatim>\<open>Cloner::copyDb\<close>\<close>

text \<open>Lines 541 to 550.\<close>

fun masterSameProcess :: "env \<Rightarrow> host list \<Rightarrow> bool" where
  "masterSameProcess E [] = False"
| "masterSameProcess E (h # csServers) =
     (if \<not> isSelf E h then masterSameProcess E csServers else True)"

text \<open>Lines 590 to 604: the creation plan.\<close>

fun makeParams ::
  "string \<Rightarrow> namespace list \<Rightarrow> collection_info list \<Rightarrow> exn + CreateCollectionParams list" where
  "makeParams dBName shardedColls [] = Inr []"
| "makeParams dBName shardedColls (coll # toClone) =
     (case ci_name coll of
        Value name \<Rightarrow>
          (case ci_idIndex coll of
             WrongType \<Rightarrow> Inl (DBException (Location 10065))
           | idIndex \<Rightarrow>
               (case makeParams dBName shardedColls toClone of
                  Inl e \<Rightarrow> Inl e
                | Inr ps \<Rightarrow> Inr (\<lparr>collectionName = name, collectionInfo = coll,
                      idIndexSpec = (case idIndex of Value i \<Rightarrow> i | _ \<Rightarrow> None),
                      shardedColl = (nsOf dBName name \<in> set shardedColls)\<rparr> # ps)))
      | _ \<Rightarrow> Inl (DBException (Location 13111)))"

text \<open>Lines 607 to 620: the index specifications of every planned collection, and the
  identity index of the entries that have none yet.\<close>

fun fetchIndexSpecs ::
  "env \<Rightarrow> string \<Rightarrow> (string \<rightharpoonup> index_spec list) \<Rightarrow> CreateCollectionParams list \<Rightarrow>
   exn + (CreateCollectionParams list \<times> (string \<rightharpoonup> index_spec list))" where
  "fetchIndexSpecs E dBName collectionIndexSpecs [] = Inr ([], collectionIndexSpecs)"
| "fetchIndexSpecs E dBName collectionIndexSpecs (params # rest) =
     (case getIndexSpecs E (nsOf dBName (collectionName params)) of
        Inl e \<Rightarrow> Inl e
      | Inr indexSpecs \<Rightarrow>
         (case (if idIndexSpec params = None then Cloner_getIdIndexSpec indexSpecs
                else Inr (idIndexSpec params)) of
            Inl e \<Rightarrow> Inl e
          | Inr idIndex \<Rightarrow>
             (case fetchIndexSpecs E dBName
                     (collectionIndexSpecs(collectionName params \<mapsto> indexSpecs)) rest of
                Inl e \<Rightarrow> Inl e
              | Inr (ps, m) \<Rightarrow> Inr (params\<lparr>idIndexSpec := idIndex\<rparr> # ps, m))))"

definition liftE :: "exn + 'a \<Rightarrow> 'a prog" where
  "liftE r = (case r of Inl e \<Rightarrow> throw e | Inr x \<Rightarrow> succeed x)"

definition optionsObj :: "collection_info \<Rightarrow> options_doc prog" where
  "optionsObj info = (case ci_options info of
       Value od \<Rightarrow> succeed od | _ \<Rightarrow> throw (DBException (Location 10065)))"

text \<open>Lines 634 to 657.\<close>

fun copyLoop :: "env \<Rightarrow> string \<Rightarrow> CreateCollectionParams list \<Rightarrow> unit prog" where
  "copyLoop E dBName [] = succeed ()"
| "copyLoop E dBName (params # rest) =
     (if shardedColl params then copyLoop E dBName rest
      else
        andThen (\<lambda>s. Some (Inr (), s\<lparr>clonedColls :=
                    insert (nsOf dBName (collectionName params)) (clonedColls s)\<rparr>)) (\<lambda>_.
        andThen (emit (ClonedCollsInserted (nsOf dBName (collectionName params)))) (\<lambda>_.
        andThen (optionsObj (collectionInfo params)) (\<lambda>od.
        andThen (Cloner_copy E dBName (nsOf dBName (collectionName params)) od
                   (idIndexSpec params)) (\<lambda>_.
        copyLoop E dBName rest)))))"

text \<open>Lines 660 to 674.\<close>

fun indexLoop ::
  "env \<Rightarrow> string \<Rightarrow> (string \<rightharpoonup> index_spec list) \<Rightarrow> CreateCollectionParams list \<Rightarrow> unit prog" where
  "indexLoop E dBName collectionIndexSpecs [] = succeed ()"
| "indexLoop E dBName collectionIndexSpecs (params # rest) =
     andThen (optionsObj (collectionInfo params)) (\<lambda>od.
     andThen (Cloner_copyIndexes E dBName (nsOf dBName (collectionName params)) od
                (case collectionIndexSpecs (collectionName params) of
                   Some specs \<Rightarrow> specs | None \<Rightarrow> [])) (\<lambda>_.
     indexLoop E dBName collectionIndexSpecs rest))"

text \<open>Lines 571 to 632: the plan, fetched with the lock released.\<close>

definition planCollections ::
  "env \<Rightarrow> string \<Rightarrow> namespace list \<Rightarrow> collection_info list \<Rightarrow>
   (CreateCollectionParams list \<times> (string \<rightharpoonup> index_spec list)) prog" where
  "planCollections E dBName shardedColls toClone =
     andThen (liftE (makeParams dBName shardedColls toClone)) (\<lambda>params.
     tempRelease E (liftE (fetchIndexSpecs E dBName Map.empty params)))"

text \<open>Lines 527 to 677.\<close>

definition Cloner_copyDb :: "env \<Rightarrow> string \<Rightarrow> string \<Rightarrow> namespace list \<Rightarrow> status prog" where
  "Cloner_copyDb E dBName masterHost shardedColls =
     (case parseConnectionString E masterHost of
        Inl c \<Rightarrow> succeed (Err c)
      | Inr csServers \<Rightarrow>
         if masterSameProcess E csServers then succeed (Err IllegalOperation)
         else
           andThen (emit (ConnectAttempted masterHost)) (\<lambda>_.
           if \<not> connectSucceeds E then succeed (Err HostUnreachable)
           else if isInternalAuthSet E \<and> authenticateInternalUser E \<noteq> OK
           then succeed (authenticateInternalUser E)
           else
             andThen (\<lambda>s. Some (Inr (), s\<lparr>clonedColls := {}\<rparr>)) (\<lambda>_.
             andThen (emit ClonedCollsCleared) (\<lambda>_.
             andThen (tempRelease E
                (andThen (liftE (getCollectionInfos E dBName)) (\<lambda>initialCollections.
                 succeed (Cloner_filterCollectionsForClone E dBName initialCollections)))) (\<lambda>filtered.
               case filtered of
                 Inl c \<Rightarrow> succeed (Err c)
               | Inr toClone \<Rightarrow>
                   andThen (planCollections E dBName shardedColls toClone) (\<lambda>plan.
                   andThen (mayWriteDatabase E dBName) (\<lambda>ok.
                   andThen (uassert NotMaster ok) (\<lambda>_.
                   andThen (Cloner_createCollectionsForDb E (fst plan) dBName) (\<lambda>st.
                     if st \<noteq> OK then succeed st
                     else
                       andThen (copyLoop E dBName (fst plan)) (\<lambda>_.
                       andThen (indexLoop E dBName (snd plan) (fst plan)) (\<lambda>_.
                       succeed OK)))))))))))"

section \<open>Scenarios\<close>

text \<open>
  A remote database with the collections \<open>A\<close> and \<open>B\<close>, each with an identity index
  and an index on \<open>x\<close>; \<open>A\<close> holds three documents, delivered in two batches.  In the
  environment \<open>calm\<close> nothing goes wrong: nobody kills the operation, the node stays
  primary, storage operations succeed and no other operation touches the catalog.
\<close>

definition idIndex :: index_spec where
  "idIndex = \<lparr>spec_name = Value ''_id_'', spec_key = 1\<rparr>"

definition xIndex :: index_spec where
  "xIndex = \<lparr>spec_name = Value ''x_1'', spec_key = 2\<rparr>"

definition plainOptions :: options_doc where
  "plainOptions = \<lparr>od_fields = 0, od_uuid = None\<rparr>"

definition remoteInfo :: "string \<Rightarrow> uuid \<Rightarrow> collection_info" where
  "remoteInfo name u = \<lparr>ci_name = Value name, ci_options = Value plainOptions,
     ci_info_uuid = Inr u, ci_idIndex = Missing\<rparr>"

definition calm :: env where
  "calm = \<lparr>killPending = (\<lambda>_. False), writesAreReplicated = True,
     canAcceptWritesFor = (\<lambda>_ _. True), canAcceptWritesForDatabase = (\<lambda>_ _. True),
     storage = (\<lambda>_. Succeeds), others = (\<lambda>_ w. w), genUUID = (\<lambda>t. t),
     movePrimaryFailPoint = (\<lambda>_. False), validateBSON = (\<lambda>d. d \<noteq> Doc 0),
     gSkipCorruptDocumentsWhenCloning = False, supportsTwoPhaseIndexBuild = False,
     userAllowedCreateNS = (\<lambda>_ _. OK),
     parseCollectionOptions =
       (\<lambda>_ od. Inr \<lparr>co_uuid = od_uuid od, co_settings = od_fields od\<rparr>),
     isSystem = (\<lambda>_. False), isLegalClientSystemNS = (\<lambda>_. False),
     parseConnectionString = (\<lambda>h. Inr [h]), isSelf = (\<lambda>h. h = ''localhost''),
     connectSucceeds = True, isInternalAuthSet = False, authenticateInternalUser = OK,
     getCollectionInfos = (\<lambda>_. Inr [remoteInfo ''A'' 10, remoteInfo ''B'' 11]),
     getIndexSpecs = (\<lambda>_. Inr [idIndex, xIndex]),
     queryBatches = (\<lambda>ns. if ns = ''db.A'' then ([[Doc 1, Doc 2], [Doc 3]], None)
                          else ([[Doc 9]], None))\<rparr>"

definition emptyNode :: state where
  "emptyNode = \<lparr>now = 0, world = \<lparr>databases = {}, catalog = Map.empty\<rparr>, trace = [],
     clonedColls = {}\<rparr>"






text \<open>The events a run added to the trace.\<close>

definition newEvents :: "state \<Rightarrow> state \<Rightarrow> event list" where
  "newEvents s s' = drop (length (trace s)) (trace s')"

section \<open>Basic facts\<close>

text \<open>Updates of a state are kept in the order of its fields.\<close>

lemma state_update_order [simp]:
  "now_update f (world_update g s) = world_update g (now_update f s)"
  "now_update f (trace_update h s) = trace_update h (now_update f s)"
  "now_update f (clonedColls_update k s) = clonedColls_update k (now_update f s)"
  "world_update g (trace_update h s) = trace_update h (world_update g s)"
  "world_update g (clonedColls_update k s) = clonedColls_update k (world_update g s)"
  "trace_update h (clonedColls_update k s) = clonedColls_update k (trace_update h s)"
  by (cases s; simp)+

lemma andThen_succeed [simp]: "andThen (succeed x) f = f x"
  by (simp add: andThen_def succeed_def)

lemma andThen_throw [simp]: "andThen (throw e) f = throw e"
  by (simp add: andThen_def throw_def)

lemma succeed_apply [simp]: "succeed x s = Some (Inr x, s)"
  by (simp add: succeed_def)

lemma throw_apply [simp]: "throw e s = Some (Inl e, s)"
  by (simp add: throw_def)


lemma andThen_Inr [simp]: "m s = Some (Inr x, s') \<Longrightarrow> andThen m f s = f x s'"
  by (simp add: andThen_def)

lemma andThen_Inl [simp]: "m s = Some (Inl e, s') \<Longrightarrow> andThen m f s = Some (Inl e, s')"
  by (simp add: andThen_def)

lemma tick_simps [simp]:
  "now (tick s) = Suc (now s)" "world (tick s) = world s"
  "trace (tick s) = trace s" "clonedColls (tick s) = clonedColls s"
  by (simp_all add: tick_def)

lemma checkForInterrupt_ok [simp]:
  "\<not> killPending E (now s) \<Longrightarrow> checkForInterrupt E s = Some (Inr (), tick s)"
  by (simp add: checkForInterrupt_def)

lemma checkForInterrupt_killed [simp]:
  "killPending E (now s) \<Longrightarrow> checkForInterrupt E s = Some (Inl (DBException Interrupted), tick s)"
  by (simp add: checkForInterrupt_def)

lemma masterSameProcess_iff: "masterSameProcess E hs = (\<exists>h\<in>set hs. isSelf E h)"
  by (induction hs) auto

subsection \<open>The retry loop\<close>





subsection \<open>Primitive steps\<close>

lemma storageOp_simps [simp]:
  "storage E (now s) = Succeeds \<Longrightarrow> storageOp E s = Some (Inr OK, tick s)"
  "storage E (now s) = Fails c \<Longrightarrow> storageOp E s = Some (Inr (Err c), tick s)"
  "storage E (now s) = Conflicts \<Longrightarrow> storageOp E s = Some (Inl WriteConflictException, tick s)"
  by (simp_all add: storageOp_def)

lemma emit_apply [simp]: "emit e s = Some (Inr (), s\<lparr>trace := trace s @ [e]\<rparr>)"
  by (simp add: emit_def)

lemma lookup_apply [simp]:
  "lookupCollectionByNamespace nss s = Some (Inr (catalog (world s) nss), s)"
  by (simp add: lookupCollectionByNamespace_def)

lemma updateCollection_apply [simp]:
  "updateCollection nss f s = Some (Inr (), s\<lparr>world := modifyCollection nss f (world s)\<rparr>)"
  by (simp add: updateCollection_def)

lemma uassert_simps [simp]:
  "uassert c True = succeed ()" "uassert c False = throw (DBException c)"
  by (simp_all add: uassert_def)

lemma uassertStatusOK_simps [simp]:
  "uassertStatusOK OK = succeed ()" "uassertStatusOK (Err c) = throw (DBException c)"
  by (simp_all add: uassertStatusOK_def)

lemma newEvents_append [simp]: "trace s' = trace s @ es \<Longrightarrow> newEvents s s' = es"
  by (simp add: newEvents_def)

subsection \<open>One insertion transaction\<close>







section \<open>The document copier\<close>







section \<open>The public operation\<close>

text \<open>
  Claim C9.  When the connection string parses and one of its servers is this process,
  \<^verbatim>\<open>copyDb\<close> returns \<open>IllegalOperation\<close> in the state it was called in: no connection
  was attempted (the trace is unchanged), and neither the catalog nor \<^verbatim>\<open>clonedColls\<close>
  was touched.
\<close>

theorem self_clone_rejected:
  assumes "parseConnectionString E masterHost = Inr csServers"
    and "\<exists>h\<in>set csServers. isSelf E h"
  shows "Cloner_copyDb E dBName masterHost shardedColls s = Some (Inr (Err IllegalOperation), s)"
  using assms by (simp add: Cloner_copyDb_def masterSameProcess_iff)

theorem self_clone_rejected_witness:
  "Cloner_copyDb calm ''db'' ''localhost'' [] emptyNode =
     Some (Inr (Err IllegalOperation), emptyNode)"
  using self_clone_rejected[of calm "''localhost''" "[''localhost'']" "''db''" "[]" emptyNode]
  by (simp add: calm_def)

end
